theory Spec2Isabelle
  imports Main
begin

section \<open>Python values, exceptions and string operations\<close>

text \<open>
  The exceptions that \<^verbatim>\<open>jwst_prop_status.py\<close> can raise from the operations modelled here.
  A raise is the left injection of a sum; nothing in the visit normalizer catches one, and
  the field extractor catches \<open>IndexError\<close> at one place only.
\<close>

datatype py_error = KeyError | IndexError | TypeError | AttributeError | ValueError

text \<open>
  What \<^verbatim>\<open>xmltodict.parse\<close> returns: an element without content is \<^verbatim>\<open>None\<close>, an element
  with text only is a \<^verbatim>\<open>str\<close>, an element with children or attributes is a \<^verbatim>\<open>dict\<close>
  (attribute keys start with \<^verbatim>\<open>@\<close>), and a repeated element is a \<^verbatim>\<open>list\<close>. Strings are
  sequences of code points below 256.
\<close>

datatype xval = XNone | XStr string | XDict "(string \<times> xval) list" | XList "xval list"

text \<open>Sequencing of computations that may raise.\<close>

definition bind :: "py_error + 'a \<Rightarrow> ('a \<Rightarrow> py_error + 'b) \<Rightarrow> py_error + 'b" where
  "bind m f = (case m of Inl e \<Rightarrow> Inl e | Inr v \<Rightarrow> f v)"

text \<open>\<^verbatim>\<open>"k" in d\<close> and \<^verbatim>\<open>d["k"]\<close>. Subscripting a string, a list or \<^verbatim>\<open>None\<close> with a string
  key raises \<open>TypeError\<close>, a dict without the key raises \<open>KeyError\<close>.\<close>

definition has_key :: "(string \<times> xval) list \<Rightarrow> string \<Rightarrow> bool" where
  "has_key kvs k = (map_of kvs k \<noteq> None)"

fun getitem :: "xval \<Rightarrow> string \<Rightarrow> py_error + xval" where
  "getitem (XDict kvs) k = (case map_of kvs k of None \<Rightarrow> Inl KeyError | Some v \<Rightarrow> Inr v)"
| "getitem v k = Inl TypeError"

text \<open>\<^verbatim>\<open>xs[i]\<close> on a list, negative indices counting from the end.\<close>

definition index :: "'a list \<Rightarrow> int \<Rightarrow> py_error + 'a" where
  "index xs i =
     (if 0 \<le> i \<and> i < int (length xs) then Inr (xs ! nat i)
      else if i < 0 \<and> - int (length xs) \<le> i then Inr (xs ! nat (int (length xs) + i))
      else Inl IndexError)"

text \<open>\<^verbatim>\<open>s.split(c)\<close> for a one-character separator: never empty, one more piece than
  separators.\<close>

fun split_on :: "char \<Rightarrow> string \<Rightarrow> string list" where
  "split_on c [] = [[]]"
| "split_on c (x # xs) =
     (if x = c then [] # split_on c xs
      else (case split_on c xs of [] \<Rightarrow> [[x]] | w # ws \<Rightarrow> (x # w) # ws))"

text \<open>\<^verbatim>\<open>v.split('(')[0]\<close> on a parsed value: only a \<^verbatim>\<open>str\<close> has the method \<^verbatim>\<open>split\<close>.\<close>

fun split_paren :: "xval \<Rightarrow> py_error + string" where
  "split_paren (XStr s) = index (split_on CHR ''('' s) 0"
| "split_paren v = Inl AttributeError"

text \<open>
  \<^verbatim>\<open>f"{v}"\<close>: a \<^verbatim>\<open>str\<close> is inserted as it is and \<^verbatim>\<open>None\<close> as the word None. For a dict or a
  list Python inserts its \<^verbatim>\<open>repr\<close>, which is not part of this program: it is the parameter
  \<open>rp\<close> of everything that formats.
\<close>

fun format_value :: "(xval \<Rightarrow> string) \<Rightarrow> xval \<Rightarrow> string" where
  "format_value rp (XStr s) = s"
| "format_value rp XNone = ''None''"
| "format_value rp v = rp v"

section \<open>The visit record normalizer\<close>

text \<open>One row of the table: the ten keys of \<^verbatim>\<open>visit_dict\<close>. The six direct fields and the
  two times hold whatever the parsed entry holds; \<open>plan_window\<close> and \<open>repeat\<close> are a
  string or \<^verbatim>\<open>None\<close>.\<close>

record visit_record =
  observation :: xval
  visit :: xval
  status :: xval
  target :: xval
  configuration :: xval
  hours :: xval
  start_ut :: xval
  end_ut :: xval
  plan_window :: "string option"
  repeat :: "string option"

text \<open>Lines 58-66: the optional times.\<close>

definition opt_field :: "(string \<times> xval) list \<Rightarrow> string \<Rightarrow> xval" where
  "opt_field kvs k = (if has_key kvs k then (case map_of kvs k of Some v \<Rightarrow> v | None \<Rightarrow> XNone) else XNone)"

text \<open>Lines 70-73: the loop over a list of plan windows, \<open>pws\<close> the string built so far.\<close>

fun plan_window_loop :: "string \<Rightarrow> xval list \<Rightarrow> py_error + string" where
  "plan_window_loop pws [] = Inr pws"
| "plan_window_loop pws (i # rest) =
     bind (split_paren i) (\<lambda>w. plan_window_loop (pws @ w @ '' '') rest)"

text \<open>Lines 68-83.\<close>

definition plan_window_of :: "(string \<times> xval) list \<Rightarrow> py_error + string option" where
  "plan_window_of kvs =
     (if has_key kvs ''planWindow'' then
        bind (getitem (XDict kvs) ''planWindow'') (\<lambda>pw.
          case pw of
            XList ws \<Rightarrow> bind (plan_window_loop [] ws) (\<lambda>pws. Inr (Some pws))
          | _ \<Rightarrow> bind (split_paren pw) (\<lambda>w. Inr (Some w)))
      else if has_key kvs ''longRangePlanStatus'' then
        Inr (Some ''Ready for long range planning, plan window not yet assigned'')
      else Inr None)"

text \<open>Lines 85-104. The fields of an f-string are evaluated from left to right.\<close>

definition repeat_of :: "(xval \<Rightarrow> string) \<Rightarrow> (string \<times> xval) list \<Rightarrow> py_error + string option" where
  "repeat_of rp kvs =
     (if has_key kvs ''repeatedBy'' then
        bind (getitem (XDict kvs) ''repeatedBy'') (\<lambda>rb.
        bind (getitem rb ''problemID'') (\<lambda>p.
        bind (getitem rb ''observation'') (\<lambda>ob.
        bind (getitem rb ''visit'') (\<lambda>vi.
          Inr (Some (''Rescheduled by WOPR '' @ format_value rp p @ '' as observation ''
                     @ format_value rp ob @ '' visit '' @ format_value rp vi
                     @ '' in this program''))))))
      else if has_key kvs ''repeatOf'' then
        bind (getitem (XDict kvs) ''repeatOf'') (\<lambda>ro.
        bind (getitem ro ''observation'') (\<lambda>ob.
        bind (getitem ro ''visit'') (\<lambda>vi.
        bind (getitem ro ''problemID'') (\<lambda>p.
          Inr (Some (''Repeat of observation '' @ format_value rp ob @ '' visit(s) ''
                     @ format_value rp vi @ '' in this program by WOPR ''
                     @ format_value rp p))))))
      else if has_key kvs ''approvedRepeat'' then
        bind (getitem (XDict kvs) ''approvedRepeat'') (\<lambda>ar.
        bind (getitem ar ''problemID'') (\<lambda>p.
          Inr (Some (''Repeat visit implementation pending by WOPR '' @ format_value rp p))))
      else Inr None)"

text \<open>
  Lines 50-106, the body of the loop over the entries: one entry \<open>vd\<close> gives one
  \<^verbatim>\<open>visit_dict\<close>. The first statement subscripts \<open>vd\<close> with a string, which raises
  \<open>TypeError\<close> unless \<open>vd\<close> is a dict.
\<close>

fun visit_dict :: "(xval \<Rightarrow> string) \<Rightarrow> xval \<Rightarrow> py_error + visit_record" where
  "visit_dict rp (XDict kvs) =
     bind (getitem (XDict kvs) ''@observation'') (\<lambda>ob.
     bind (getitem (XDict kvs) ''@visit'') (\<lambda>vi.
     bind (getitem (XDict kvs) ''status'') (\<lambda>st.
     bind (getitem (XDict kvs) ''target'') (\<lambda>tg.
     bind (getitem (XDict kvs) ''configuration'') (\<lambda>cf.
     bind (getitem (XDict kvs) ''hours'') (\<lambda>hr.
     bind (plan_window_of kvs) (\<lambda>pw.
     bind (repeat_of rp kvs) (\<lambda>rpt.
       Inr \<lparr>observation = ob, visit = vi, status = st, target = tg, configuration = cf,
            hours = hr, start_ut = opt_field kvs ''startTime'',
            end_ut = opt_field kvs ''endTime'', plan_window = pw, repeat = rpt\<rparr>))))))))"
| "visit_dict rp vd = Inl TypeError"

text \<open>Lines 48 and 106: the loop, \<open>visits\<close> the rows appended so far.\<close>

fun visits_loop :: "(xval \<Rightarrow> string) \<Rightarrow> visit_record list \<Rightarrow> xval list \<Rightarrow> py_error + visit_record list" where
  "visits_loop rp visits [] = Inr visits"
| "visits_loop rp visits (vd # rest) =
     bind (visit_dict rp vd) (\<lambda>d. visits_loop rp (visits @ [d]) rest)"

text \<open>
  \<^verbatim>\<open>get_visit_status\<close> from line 43 on; \<open>visit_data\<close> is the parsed document. The data frame
  returned is the list of its rows.
\<close>

definition get_visit_status :: "(xval \<Rightarrow> string) \<Rightarrow> xval \<Rightarrow> py_error + visit_record list" where
  "get_visit_status rp visit_data =
     bind (getitem visit_data ''visitStatusReport'') (\<lambda>report.
     bind (getitem report ''visit'') (\<lambda>v.
       let visit_data_list = (case v of XList vs \<Rightarrow> vs | _ \<Rightarrow> [v])
       in visits_loop rp [] visit_data_list))"

section \<open>The status filter\<close>

text \<open>
  \<^verbatim>\<open>filter_df_by_status\<close>. The frame is one whose rows are visit records, so it has the
  column \<open>status\<close>; \<^verbatim>\<open>notnull\<close> is false on \<^verbatim>\<open>None\<close> only, and the comparison of a cell
  with the selector is true on the equal string only.
\<close>

definition notnull :: "xval \<Rightarrow> bool" where
  "notnull v = (v \<noteq> XNone)"

definition filter_df_by_status :: "string \<Rightarrow> visit_record list \<Rightarrow> visit_record list \<times> int" where
  "filter_df_by_status sel df =
     (let df1 = filter (\<lambda>r. notnull (status r)) df;
          filtered_df = (if sel = ''All'' then df1 else filter (\<lambda>r. status r = XStr sel) df1);
          height = int (length filtered_df) * 35 + 3
      in (filtered_df, height))"

section \<open>The field extractor\<close>

text \<open>
  The tree that \<^verbatim>\<open>BeautifulSoup\<close> builds: a text node (\<^verbatim>\<open>NavigableString\<close>, a \<^verbatim>\<open>str\<close>) or
  a \<^verbatim>\<open>Tag\<close> with its name, its attributes and its \<^verbatim>\<open>contents\<close>. The parsed document is
  itself a tag, the root.
\<close>

datatype node = NavigableString string | Tag string "(string \<times> string) list" "node list"

text \<open>
  What \<^verbatim>\<open>x.strip()\<close> gives on a node, a \<^verbatim>\<open>str\<close> or a \<^verbatim>\<open>ResultSet\<close> of tags, and the values
  stored in \<^verbatim>\<open>prop_info\<close>. The type \<open>'f\<close> stands for Python's floats.
\<close>

datatype stripped = Str string | ResultSet "node list"

datatype 'f pval = PStr string | PResultSet "node list" | PInt int | PFloat 'f | PNode node

fun pval_of :: "stripped \<Rightarrow> 'f pval" where
  "pval_of (Str s) = PStr s"
| "pval_of (ResultSet ns) = PResultSet ns"

text \<open>\<^verbatim>\<open>find_all(name)\<close>: the tags of that name below the root, in document order.\<close>

fun descendants :: "node \<Rightarrow> node list" where
  "descendants (NavigableString s) = []"
| "descendants (Tag nm attrs cs) = concat (map (\<lambda>c. c # descendants c) cs)"

fun is_tag :: "string \<Rightarrow> node \<Rightarrow> bool" where
  "is_tag nm (Tag n attrs cs) = (n = nm)"
| "is_tag nm (NavigableString s) = False"

definition find_all :: "string \<Rightarrow> node \<Rightarrow> node list" where
  "find_all nm html_data = filter (is_tag nm) (descendants html_data)"

text \<open>\<^verbatim>\<open>x.contents\<close>: a text node has no such attribute.\<close>

fun contents :: "node \<Rightarrow> py_error + node list" where
  "contents (Tag nm attrs cs) = Inr cs"
| "contents (NavigableString s) = Inl AttributeError"

text \<open>
  \<^verbatim>\<open>str.isspace\<close> on the code points below 256, \<^verbatim>\<open>s.strip()\<close> and \<^verbatim>\<open>s.split()\<close>.
  \<open>split_ws_acc\<close> carries the word read so far.
\<close>

definition is_space :: "char \<Rightarrow> bool" where
  "is_space c = ((of_char c :: nat) \<in> set [9, 10, 11, 12, 13, 28, 29, 30, 31, 32, 133, 160])"

definition strip :: "string \<Rightarrow> string" where
  "strip s = rev (dropWhile is_space (rev (dropWhile is_space s)))"

fun split_ws_acc :: "string \<Rightarrow> string \<Rightarrow> string list" where
  "split_ws_acc cur [] = (if cur = [] then [] else [cur])"
| "split_ws_acc cur (c # cs) =
     (if is_space c then (if cur = [] then split_ws_acc [] cs else cur # split_ws_acc [] cs)
      else split_ws_acc (cur @ [c]) cs)"

definition split_ws :: "string \<Rightarrow> string list" where
  "split_ws s = split_ws_acc [] s"

text \<open>
  \<^verbatim>\<open>x.strip()\<close> on a node. On a text node it is the method of \<^verbatim>\<open>str\<close>. On a tag the
  attribute \<^verbatim>\<open>strip\<close> is \<^verbatim>\<open>x.find("strip")\<close>, the first tag of that name below \<open>x\<close>: when
  there is none it is \<^verbatim>\<open>None\<close>, and the call raises \<open>TypeError\<close>; when there is one, calling
  it is its \<^verbatim>\<open>find_all()\<close>, all the tags below it.
\<close>

fun any_tag :: "node \<Rightarrow> bool" where
  "any_tag (Tag nm attrs cs) = True"
| "any_tag (NavigableString s) = False"

fun strip_node :: "node \<Rightarrow> py_error + stripped" where
  "strip_node (NavigableString s) = Inr (Str (strip s))"
| "strip_node (Tag nm attrs cs) =
     (case find_all ''strip'' (Tag nm attrs cs) of
        [] \<Rightarrow> Inl TypeError
      | t # ts \<Rightarrow> Inr (ResultSet (filter any_tag (descendants t))))"

text \<open>\<^verbatim>\<open>int(s)\<close> in base ten: white space around, a sign, digits with single underscores
  between them.\<close>

definition is_digit :: "char \<Rightarrow> bool" where
  "is_digit c = (c \<in> set ''0123456789'')"

fun digits_ok :: "string \<Rightarrow> bool" where
  "digits_ok [] = False"
| "digits_ok [c] = is_digit c"
| "digits_ok (c # d # cs) =
     (is_digit c \<and> (if d = CHR ''_'' then digits_ok cs else digits_ok (d # cs)))"

definition digits_value :: "string \<Rightarrow> int" where
  "digits_value s = foldl (\<lambda>a c. 10 * a + (int (of_char c) - 48)) 0 (filter is_digit s)"

definition py_int :: "string \<Rightarrow> py_error + int" where
  "py_int s =
     (let t = strip s;
          (sgn, body) = (case t of [] \<Rightarrow> (1, t)
                         | c # r \<Rightarrow> if c = CHR ''-'' then (- 1, r)
                                    else if c = CHR ''+'' then (1, r) else (1, t))
      in if digits_ok body then Inr (sgn * digits_value body) else Inl ValueError)"

text \<open>\<^verbatim>\<open>int(x)\<close> on what \<^verbatim>\<open>strip\<close> gave: a \<^verbatim>\<open>ResultSet\<close> is not a number or a string.\<close>

fun int_of :: "stripped \<Rightarrow> py_error + int" where
  "int_of (Str s) = py_int s"
| "int_of (ResultSet ns) = Inl TypeError"

text \<open>\<^verbatim>\<open>float(s)\<close> is the parameter \<open>fl\<close>: \<open>None\<close> where Python raises \<open>ValueError\<close>.\<close>

definition py_float :: "(string \<Rightarrow> 'f option) \<Rightarrow> string \<Rightarrow> py_error + 'f" where
  "py_float fl s = (case fl s of None \<Rightarrow> Inl ValueError | Some x \<Rightarrow> Inr x)"

text \<open>\<^verbatim>\<open>ps[i].contents[j].strip()\<close> and \<^verbatim>\<open>x.split()[0]\<close>; a \<^verbatim>\<open>ResultSet\<close> has no attribute
  \<^verbatim>\<open>split\<close>.\<close>

definition text_at :: "node list \<Rightarrow> int \<Rightarrow> int \<Rightarrow> py_error + stripped" where
  "text_at ps i j = bind (index ps i) (\<lambda>p. bind (contents p) (\<lambda>cs. bind (index cs j) strip_node))"

fun first_word :: "stripped \<Rightarrow> py_error + string" where
  "first_word (Str s) = index (split_ws s) 0"
| "first_word (ResultSet ns) = Inl AttributeError"

text \<open>Lines 27-30: the \<^verbatim>\<open>try\<close> whose handler catches \<open>IndexError\<close> and nothing else.\<close>

definition excl_time_of :: "node list \<Rightarrow> py_error + int" where
  "excl_time_of ps =
     (case bind (text_at ps 1 (- 1)) (\<lambda>s. bind (first_word s) py_int) of
        Inl IndexError \<Rightarrow> Inr 0
      | Inl e \<Rightarrow> Inl e
      | Inr n \<Rightarrow> Inr n)"

text \<open>Line 31: \<^verbatim>\<open>html_data.find_all("h1")[0].contents[1].contents[0]\<close>.\<close>

definition ptype_of :: "node \<Rightarrow> py_error + node" where
  "ptype_of html_data =
     bind (index (find_all ''h1'' html_data) 0) (\<lambda>h.
     bind (contents h) (\<lambda>cs.
     bind (index cs 1) (\<lambda>n.
     bind (contents n) (\<lambda>cs2. index cs2 0))))"

text \<open>\<^verbatim>\<open>d[k] = v\<close> on a dict kept in insertion order.\<close>

fun dict_set :: "string \<Rightarrow> 'v \<Rightarrow> (string \<times> 'v) list \<Rightarrow> (string \<times> 'v) list" where
  "dict_set k v [] = [(k, v)]"
| "dict_set k v ((k', v') # d) = (if k' = k then (k, v) # d else (k', v') # dict_set k v d)"

text \<open>\<^verbatim>\<open>get_prop_info\<close> from line 19 on; \<open>html_data\<close> is the parsed document.\<close>

definition get_prop_info :: "(string \<Rightarrow> 'f option) \<Rightarrow> node \<Rightarrow> py_error + (string \<times> 'f pval) list" where
  "get_prop_info fl html_data =
     (let ps = find_all ''p'' html_data;
          prop_info = []
      in if ps \<noteq> [] then
           bind (text_at ps 0 1) (\<lambda>v1. let prop_info = dict_set ''pi'' (pval_of v1) prop_info in
           bind (text_at ps 0 5) (\<lambda>v2. let prop_info = dict_set ''pi_inst'' (pval_of v2) prop_info in
           bind (text_at ps 1 1) (\<lambda>v3. let prop_info = dict_set ''title'' (pval_of v3) prop_info in
           bind (bind (text_at ps 1 5) int_of) (\<lambda>v4.
             let prop_info = dict_set ''cycle'' (PInt v4) prop_info in
           bind (bind (text_at ps 1 9) (\<lambda>s. bind (first_word s) (py_float fl))) (\<lambda>v5.
             let prop_info = dict_set ''allocation'' (PFloat v5) prop_info in
           bind (excl_time_of ps) (\<lambda>v6.
             let prop_info = dict_set ''excl_time'' (PInt v6) prop_info in
           bind (ptype_of html_data) (\<lambda>v7.
             let prop_info = dict_set ''ptype'' (PNode v7) prop_info;
                 links = find_all ''a'' html_data in
           bind (index links 9) (\<lambda>v8. let prop_info = dict_set ''apt'' (PNode v8) prop_info in
           bind (index links 10) (\<lambda>v9. let prop_info = dict_set ''pdf'' (PNode v9) prop_info in
             Inr prop_info)))))))))
         else Inr prop_info)"

section \<open>The specification's wording, and example inputs\<close>



text \<open>The entry of the specification's example, the row it gives with a chosen status, an
  entry with two plan windows and a long-range marker, an entry with two repeat references,
  a status document around a visit field, and a stand-in for \<^verbatim>\<open>repr\<close>.\<close>

definition example_entry :: "(string \<times> xval) list" where
  "example_entry =
     [(''@observation'', XStr ''1''), (''@visit'', XStr ''1''), (''status'', XStr ''Scheduled''),
      (''target'', XStr ''T1''), (''configuration'', XStr ''NIRCam''), (''hours'', XStr ''2.0'')]"

definition example_row :: "xval \<Rightarrow> visit_record" where
  "example_row st =
     \<lparr>observation = XStr ''1'', visit = XStr ''1'', status = st, target = XStr ''T1'',
      configuration = XStr ''NIRCam'', hours = XStr ''2.0'', start_ut = XNone, end_ut = XNone,
      plan_window = None, repeat = None\<rparr>"

definition no_repr :: "xval \<Rightarrow> string" where
  "no_repr v = ''?''"



definition report :: "xval \<Rightarrow> xval" where
  "report v = XDict [(''visitStatusReport'', XDict [(''visit'', v)])]"

text \<open>
  Example pages: a heading, a first paragraph with the investigator and the institution, a
  second paragraph that is a parameter, and eleven links. \<open>second_paragraph\<close> is the ten
  nodes up to the allocation, followed by a tail; \<open>period_tail\<close> is an exclusive access
  period and \<open>blank_tail\<close> one without a value. \<open>example_float\<close> stands for \<^verbatim>\<open>float\<close> on the one literal used.
\<close>

definition example_float :: "string \<Rightarrow> string option" where
  "example_float s = (if s = ''25.3'' then Some s else None)"

definition bold :: "string \<Rightarrow> node" where
  "bold s = Tag ''b'' [] [NavigableString s]"

definition link :: "string \<Rightarrow> string \<Rightarrow> node" where
  "link href s = Tag ''a'' [(''href'', href)] [NavigableString s]"

definition example_page :: "node list \<Rightarrow> node" where
  "example_page second =
     Tag ''[document]'' []
       [Tag ''h1'' [] [NavigableString ''Proposal '', Tag ''span'' [] [NavigableString ''GO'']],
        Tag ''p'' []
          [bold ''Principal Investigator:'', NavigableString '' Jane Doe'', Tag ''br'' [] [],
           NavigableString '' '', bold ''PI Institution:'', NavigableString '' STScI''],
        Tag ''p'' [] second,
        Tag ''div'' []
          [link ''a0'' ''0'', link ''a1'' ''1'', link ''a2'' ''2'', link ''a3'' ''3'',
           link ''a4'' ''4'', link ''a5'' ''5'', link ''a6'' ''6'', link ''a7'' ''7'',
           link ''a8'' ''8'', link ''apt'' ''APT'', link ''pdf'' ''PDF'']]"

definition second_paragraph :: "node list \<Rightarrow> node list" where
  "second_paragraph tail =
     [bold ''Title:'', NavigableString '' Deep Field'', Tag ''br'' [] [], NavigableString '' '',
      bold ''Cycle:'', NavigableString '' 1'', Tag ''br'' [] [], NavigableString '' '',
      bold ''Allocation:'', NavigableString '' 25.3 hours''] @ tail"

definition period_tail :: "string \<Rightarrow> node list" where
  "period_tail s = [Tag ''br'' [] [], NavigableString '' '', bold ''Exclusive Access Period:'',
                    NavigableString s]"

definition blank_tail :: "node list" where
  "blank_tail = period_tail [CHR '' '', CHR 0x0A]"

definition empty_page :: node where
  "empty_page = Tag ''[document]'' [] [NavigableString ''No such proposal'']"

section \<open>Basic facts\<close>

lemma bind_Inl [simp]: "bind (Inl e) f = Inl e"
  by (simp add: bind_def)

lemma bind_Inr [simp]: "bind (Inr v) f = f v"
  by (simp add: bind_def)

lemma bind_eq_Inr: "bind m f = Inr y \<longleftrightarrow> (\<exists>v. m = Inr v \<and> f v = Inr y)"
  by (cases m) simp_all

lemma bind_map_sum:
  "(\<And>v. g v = map_sum id h (f v)) \<Longrightarrow> bind m g = map_sum id h (bind m f)"
  by (cases m) simp_all





lemma map_of_filter_key:
  "map_of (filter (\<lambda>kv. fst kv \<noteq> k) kvs) k' = (if k' = k then None else map_of kvs k')"
  by (induction kvs) auto



section \<open>The visit record normalizer: plan window and repeat\<close>


lemma visit_dict_Inr:
  "visit_dict rp (XDict kvs) = Inr r \<Longrightarrow>
     plan_window_of kvs = Inr (plan_window r) \<and> repeat_of rp kvs = Inr (repeat r)
     \<and> start_ut r = opt_field kvs ''startTime'' \<and> end_ut r = opt_field kvs ''endTime''"
  by (auto simp: bind_eq_Inr)







section \<open>The visit record normalizer: one entry or a list of entries\<close>

lemma visits_loop_Inr:
  "visits_loop rp acc es = Inr rs \<longleftrightarrow>
     (\<exists>rs'. rs = acc @ rs' \<and> map (visit_dict rp) es = map Inr rs')"
proof (induction es arbitrary: acc)
  case Nil
  then show ?case by auto
next
  case (Cons e es)
  show ?case
  proof (cases "visit_dict rp e")
    case (Inl x)
    then show ?thesis by (auto simp: map_eq_Cons_conv)
  next
    case (Inr d)
    then show ?thesis by (auto simp: Cons.IH map_eq_Cons_conv)
  qed
qed

text \<open>
  Claim C3. A status document whose visit field is one entry \<open>e\<close> (an entry is not a list)
  and a document whose visit field is the list \<open>[e]\<close> give the same result, rows or
  exception. For a visit field that is a list \<open>es\<close>, the result is the rows \<open>rs\<close> exactly
  when the entries, one by one and in their order, give the rows of \<open>rs\<close>.
\<close>

theorem scalar_list_normalized:
  "(getitem d1 ''visitStatusReport'' = Inr r1 \<and> getitem r1 ''visit'' = Inr e
      \<and> (\<forall>ws. e \<noteq> XList ws)
      \<and> getitem d2 ''visitStatusReport'' = Inr r2 \<and> getitem r2 ''visit'' = Inr (XList [e])
     \<longrightarrow> get_visit_status rp d1 = get_visit_status rp d2)
   \<and> (getitem d2 ''visitStatusReport'' = Inr r2 \<and> getitem r2 ''visit'' = Inr (XList es)
     \<longrightarrow> (get_visit_status rp d2 = Inr rs) = (map (visit_dict rp) es = map Inr rs))"
proof -
  have a: "get_visit_status rp d1 = get_visit_status rp d2"
    if "getitem d1 ''visitStatusReport'' = Inr r1" "getitem r1 ''visit'' = Inr e"
       "\<forall>ws. e \<noteq> XList ws"
       "getitem d2 ''visitStatusReport'' = Inr r2" "getitem r2 ''visit'' = Inr (XList [e])"
    using that by (cases e) (simp_all add: get_visit_status_def)
  have b: "(get_visit_status rp d2 = Inr rs) = (map (visit_dict rp) es = map Inr rs)"
    if "getitem d2 ''visitStatusReport'' = Inr r2" "getitem r2 ''visit'' = Inr (XList es)"
    using that by (simp add: get_visit_status_def visits_loop_Inr)
  from a b show ?thesis by blast
qed

theorem scalar_list_normalized_witness:
  "get_visit_status no_repr (report (XDict example_entry))
     = get_visit_status no_repr (report (XList [XDict example_entry]))
   \<and> get_visit_status no_repr (report (XList [XDict example_entry]))
     = Inr [example_row (XStr ''Scheduled'')]"
proof -
  have v: "visit_dict no_repr (XDict example_entry) = Inr (example_row (XStr ''Scheduled''))"
    by (simp add: example_entry_def example_row_def plan_window_of_def has_key_def
          repeat_of_def opt_field_def)
  note t = scalar_list_normalized[of "report (XDict example_entry)"
      "XDict [(''visit'', XDict example_entry)]" "XDict example_entry"
      "report (XList [XDict example_entry])" "XDict [(''visit'', XList [XDict example_entry])]"
      no_repr "[XDict example_entry]" "[example_row (XStr ''Scheduled'')]"]
  from t v show ?thesis by (simp add: report_def)
qed

section \<open>The visit record normalizer: the optional times\<close>

lemma has_key_filter:
  "has_key (filter (\<lambda>kv. fst kv \<noteq> k) kvs) k' = (k' \<noteq> k \<and> has_key kvs k')"
  by (simp add: has_key_def map_of_filter_key)

lemma getitem_filter:
  "k' \<noteq> k \<Longrightarrow> getitem (XDict (filter (\<lambda>kv. fst kv \<noteq> k) kvs)) k' = getitem (XDict kvs) k'"
  by (simp add: map_of_filter_key)

lemma opt_field_filter:
  "opt_field (filter (\<lambda>kv. fst kv \<noteq> k) kvs) k' = (if k' = k then XNone else opt_field kvs k')"
  by (simp add: opt_field_def has_key_def map_of_filter_key)

lemma plan_window_of_filter:
  "k \<noteq> ''planWindow'' \<Longrightarrow> k \<noteq> ''longRangePlanStatus'' \<Longrightarrow>
   plan_window_of (filter (\<lambda>kv. fst kv \<noteq> k) kvs) = plan_window_of kvs"
  by (simp add: plan_window_of_def has_key_filter map_of_filter_key)

lemma repeat_of_filter:
  "k \<noteq> ''repeatedBy'' \<Longrightarrow> k \<noteq> ''repeatOf'' \<Longrightarrow> k \<noteq> ''approvedRepeat'' \<Longrightarrow>
   repeat_of rp (filter (\<lambda>kv. fst kv \<noteq> k) kvs) = repeat_of rp kvs"
  by (simp add: repeat_of_def has_key_filter map_of_filter_key)

lemma visit_dict_unfold:
  "visit_dict rp (XDict kvs) =
     bind (getitem (XDict kvs) ''@observation'') (\<lambda>ob.
     bind (getitem (XDict kvs) ''@visit'') (\<lambda>vi.
     bind (getitem (XDict kvs) ''status'') (\<lambda>st.
     bind (getitem (XDict kvs) ''target'') (\<lambda>tg.
     bind (getitem (XDict kvs) ''configuration'') (\<lambda>cf.
     bind (getitem (XDict kvs) ''hours'') (\<lambda>hr.
     bind (plan_window_of kvs) (\<lambda>pw.
     bind (repeat_of rp kvs) (\<lambda>rpt.
       Inr \<lparr>observation = ob, visit = vi, status = st, target = tg, configuration = cf,
            hours = hr, start_ut = opt_field kvs ''startTime'',
            end_ut = opt_field kvs ''endTime'', plan_window = pw, repeat = rpt\<rparr>))))))))"
  by simp

lemma visit_dict_without_start:
  "visit_dict rp (XDict (filter (\<lambda>kv. fst kv \<noteq> ''startTime'') kvs))
     = map_sum id (\<lambda>r. r\<lparr>start_ut := XNone\<rparr>) (visit_dict rp (XDict kvs))"
  unfolding visit_dict_unfold
  by (simp add: getitem_filter plan_window_of_filter repeat_of_filter opt_field_filter
        del: getitem.simps(1))
     (intro bind_map_sum, simp)

lemma visit_dict_without_end:
  "visit_dict rp (XDict (filter (\<lambda>kv. fst kv \<noteq> ''endTime'') kvs))
     = map_sum id (\<lambda>r. r\<lparr>end_ut := XNone\<rparr>) (visit_dict rp (XDict kvs))"
  unfolding visit_dict_unfold
  by (simp add: getitem_filter plan_window_of_filter repeat_of_filter opt_field_filter
        del: getitem.simps(1))
     (intro bind_map_sum, simp)

text \<open>
  Claim C8. An entry without \<^verbatim>\<open>startTime\<close> (without \<^verbatim>\<open>endTime\<close>) behaves as the same
  entry with it, except that \<open>start_ut\<close> (\<open>end_ut\<close>) of the row is \<^verbatim>\<open>None\<close>: the same
  exception if the entry with the field raises, and otherwise the same row in every other
  field. In particular the row of an entry that lacks the field has \<^verbatim>\<open>None\<close> there.
\<close>

theorem missing_times_null:
  "visit_dict rp (XDict (filter (\<lambda>kv. fst kv \<noteq> ''startTime'') kvs))
     = map_sum id (\<lambda>r. r\<lparr>start_ut := XNone\<rparr>) (visit_dict rp (XDict kvs))
   \<and> visit_dict rp (XDict (filter (\<lambda>kv. fst kv \<noteq> ''endTime'') kvs))
     = map_sum id (\<lambda>r. r\<lparr>end_ut := XNone\<rparr>) (visit_dict rp (XDict kvs))
   \<and> (visit_dict rp (XDict kvs) = Inr r \<longrightarrow>
        (\<not> has_key kvs ''startTime'' \<longrightarrow> start_ut r = XNone)
        \<and> (\<not> has_key kvs ''endTime'' \<longrightarrow> end_ut r = XNone))"
proof -
  have "start_ut r = XNone"
    if "visit_dict rp (XDict kvs) = Inr r" "\<not> has_key kvs ''startTime''"
    using visit_dict_Inr[OF that(1)] that(2) by (simp add: opt_field_def)
  moreover have "end_ut r = XNone"
    if "visit_dict rp (XDict kvs) = Inr r" "\<not> has_key kvs ''endTime''"
    using visit_dict_Inr[OF that(1)] that(2) by (simp add: opt_field_def)
  ultimately show ?thesis
    using visit_dict_without_start[of rp kvs] visit_dict_without_end[of rp kvs] by blast
qed

theorem missing_times_null_witness:
  "visit_dict no_repr (XDict example_entry) = Inr (example_row (XStr ''Scheduled''))
   \<and> start_ut (example_row (XStr ''Scheduled'')) = XNone
   \<and> end_ut (example_row (XStr ''Scheduled'')) = XNone
   \<and> visit_dict no_repr (XDict (filter (\<lambda>kv. fst kv \<noteq> ''startTime'')
        (example_entry @ [(''startTime'', XStr ''Jan 1, 2023'')])))
     = Inr (example_row (XStr ''Scheduled''))"
proof -
  have v: "visit_dict no_repr (XDict example_entry) = Inr (example_row (XStr ''Scheduled''))"
    by (simp add: example_entry_def example_row_def plan_window_of_def has_key_def
          repeat_of_def opt_field_def)
  have k: "\<not> has_key example_entry ''startTime''" "\<not> has_key example_entry ''endTime''"
    by (simp_all add: example_entry_def has_key_def)
  have w: "visit_dict no_repr (XDict (example_entry @ [(''startTime'', XStr ''Jan 1, 2023'')]))
     = Inr ((example_row (XStr ''Scheduled'')) \<lparr>start_ut := XStr ''Jan 1, 2023''\<rparr>)"
    by (simp add: example_entry_def example_row_def plan_window_of_def has_key_def
          repeat_of_def opt_field_def)
  from missing_times_null[of no_repr example_entry "example_row (XStr ''Scheduled'')"]
    missing_times_null[of no_repr "example_entry @ [(''startTime'', XStr ''Jan 1, 2023'')]"]
    v k w
  show ?thesis by (simp add: example_row_def)
qed

section \<open>The visit record normalizer: the space after every window of a list\<close>











section \<open>Properties of the status filter\<close>

text \<open>
  Claim C4, as the code has it. The rows whose status is \<^verbatim>\<open>None\<close> are removed first. With
  the selector \<^verbatim>\<open>All\<close>, written with a capital A, all remaining rows are returned in their
  order; with any other selector, exactly the remaining rows whose status is that very
  string, in their order.
\<close>

theorem filter_by_status:
  "(sel = ''All'' \<longrightarrow> fst (filter_df_by_status sel df) = filter (\<lambda>r. status r \<noteq> XNone) df)
   \<and> (sel \<noteq> ''All'' \<longrightarrow>
        fst (filter_df_by_status sel df)
          = filter (\<lambda>r. status r = XStr sel) (filter (\<lambda>r. status r \<noteq> XNone) df)
        \<and> fst (filter_df_by_status sel df) = filter (\<lambda>r. status r = XStr sel) df)"
  by (auto simp: filter_df_by_status_def Let_def notnull_def intro: filter_cong)

theorem filter_by_status_witness:
  "fst (filter_df_by_status ''All''
      [example_row (XStr ''Scheduled''), example_row XNone, example_row (XStr ''Executed'')])
     = [example_row (XStr ''Scheduled''), example_row (XStr ''Executed'')]
   \<and> fst (filter_df_by_status ''Scheduled''
      [example_row (XStr ''Scheduled''), example_row (XStr ''Executed''),
       example_row (XStr ''Scheduled'')])
     = [example_row (XStr ''Scheduled''), example_row (XStr ''Scheduled'')]"
  using filter_by_status[of "''All''"
      "[example_row (XStr ''Scheduled''), example_row XNone, example_row (XStr ''Executed'')]"]
    filter_by_status[of "''Scheduled''"
      "[example_row (XStr ''Scheduled''), example_row (XStr ''Executed''),
        example_row (XStr ''Scheduled'')]"]
  by (simp add: example_row_def)

text \<open>
  Claim C4 as worded fails at the selector \<^verbatim>\<open>all\<close> in lower case: the code compares with
  \<^verbatim>\<open>All\<close>, so \<^verbatim>\<open>all\<close> is a status like any other and the rows with statuses Scheduled,
  \<^verbatim>\<open>None\<close>, Executed give no row, where the claim returns the two rows with a status.
\<close>

theorem filter_lowercase_all_counterexample:
  "filter_df_by_status ''all''
      [example_row (XStr ''Scheduled''), example_row XNone, example_row (XStr ''Executed'')]
     = ([], 3)
   \<and> filter (\<lambda>r. status r \<noteq> XNone)
      [example_row (XStr ''Scheduled''), example_row XNone, example_row (XStr ''Executed'')]
     = [example_row (XStr ''Scheduled''), example_row (XStr ''Executed'')]"
  by (simp add: filter_df_by_status_def example_row_def notnull_def)




section \<open>Properties of the field extractor\<close>

lemma get_prop_info_Inr:
  "get_prop_info fl html_data = Inr d \<longleftrightarrow>
     (if find_all ''p'' html_data = [] then d = []
      else \<exists>a b c n x e t l1 l2.
         text_at (find_all ''p'' html_data) 0 1 = Inr a
         \<and> text_at (find_all ''p'' html_data) 0 5 = Inr b
         \<and> text_at (find_all ''p'' html_data) 1 1 = Inr c
         \<and> bind (text_at (find_all ''p'' html_data) 1 5) int_of = Inr n
         \<and> bind (text_at (find_all ''p'' html_data) 1 9)
              (\<lambda>s. bind (first_word s) (py_float fl)) = Inr x
         \<and> excl_time_of (find_all ''p'' html_data) = Inr e
         \<and> ptype_of html_data = Inr t
         \<and> index (find_all ''a'' html_data) 9 = Inr l1
         \<and> index (find_all ''a'' html_data) 10 = Inr l2
         \<and> d = [(''pi'', pval_of a), (''pi_inst'', pval_of b), (''title'', pval_of c),
                (''cycle'', PInt n),
                (''allocation'', PFloat x), (''excl_time'', PInt e), (''ptype'', PNode t),
                (''apt'', PNode l1), (''pdf'', PNode l2)])"
  by (auto simp: get_prop_info_def Let_def bind_eq_Inr)

lemma strip_blank: "\<forall>c\<in>set s. is_space c \<Longrightarrow> strip s = []"
  by (auto simp: strip_def dest: set_dropWhileD)

lemma index_last: "cs \<noteq> [] \<Longrightarrow> index cs (- 1) = Inr (last cs)"
  by (cases cs rule: rev_cases) (auto simp: index_def nat_add_distrib)

lemma index_second: "index (p0 # p1 # rest) 1 = Inr p1"
  by (simp add: index_def)

lemma first_word_empty: "first_word (Str []) = Inl IndexError"
  by (simp add: split_ws_def index_def)

lemma excl_time_blank:
  assumes "ps = p0 # p1 # rest" "contents p1 = Inr cs" "cs \<noteq> []"
    "last cs = NavigableString s" "\<forall>c\<in>set s. is_space c"
  shows "excl_time_of ps = Inr 0"
proof -
  have "text_at ps 1 (- 1) = Inr (Str [])"
    using assms by (simp add: text_at_def index_second index_last strip_blank)
  then show ?thesis
    by (simp add: excl_time_of_def first_word_empty del: first_word.simps)
qed

lemma example_page_blank:
  "get_prop_info example_float (example_page (second_paragraph blank_tail))
     = Inr [(''pi'', PStr ''Jane Doe''), (''pi_inst'', PStr ''STScI''),
            (''title'', PStr ''Deep Field''), (''cycle'', PInt 1),
            (''allocation'', PFloat ''25.3''), (''excl_time'', PInt 0),
            (''ptype'', PNode (NavigableString ''GO'')),
            (''apt'', PNode (link ''apt'' ''APT'')), (''pdf'', PNode (link ''pdf'' ''PDF''))]"
  by code_simp

text \<open>
  Claim C6. A document without paragraph elements gives the empty mapping and no
  exception, and the empty mapping is returned for such documents only.
\<close>

theorem not_found_empty:
  "(find_all ''p'' html_data = [] \<longrightarrow> get_prop_info fl html_data = Inr [])
   \<and> (get_prop_info fl html_data = Inr [] \<longrightarrow> find_all ''p'' html_data = [])"
  using get_prop_info_Inr[of fl html_data "[]"] by (auto split: if_splits)

theorem not_found_empty_witness:
  "find_all ''p'' empty_page = [] \<and> get_prop_info example_float empty_page = Inr []"
proof -
  have h: "find_all ''p'' empty_page = []"
    by (simp add: empty_page_def find_all_def)
  with not_found_empty[of empty_page example_float] show ?thesis by simp
qed

text \<open>
  Claim C7, as the code has it. The exclusion time is read from the last child of the
  second paragraph. When that child is a text node without a word (empty or white space
  only), \<open>excl_time\<close> is 0 and this step raises nothing: the lookup succeeds exactly when
  the eight other fields are extracted, and returns them with \<open>excl_time\<close> 0.
\<close>

theorem excl_time_default:
  assumes "find_all ''p'' html_data = p0 # p1 # rest" "contents p1 = Inr cs" "cs \<noteq> []"
    "last cs = NavigableString s" "\<forall>c\<in>set s. is_space c"
  shows "excl_time_of (find_all ''p'' html_data) = Inr 0
   \<and> (get_prop_info fl html_data = Inr d \<longleftrightarrow>
       (\<exists>a b c n x t l1 l2.
         text_at (find_all ''p'' html_data) 0 1 = Inr a
         \<and> text_at (find_all ''p'' html_data) 0 5 = Inr b
         \<and> text_at (find_all ''p'' html_data) 1 1 = Inr c
         \<and> bind (text_at (find_all ''p'' html_data) 1 5) int_of = Inr n
         \<and> bind (text_at (find_all ''p'' html_data) 1 9)
              (\<lambda>s. bind (first_word s) (py_float fl)) = Inr x
         \<and> ptype_of html_data = Inr t
         \<and> index (find_all ''a'' html_data) 9 = Inr l1
         \<and> index (find_all ''a'' html_data) 10 = Inr l2
         \<and> d = [(''pi'', pval_of a), (''pi_inst'', pval_of b), (''title'', pval_of c),
                (''cycle'', PInt n),
                (''allocation'', PFloat x), (''excl_time'', PInt 0), (''ptype'', PNode t),
                (''apt'', PNode l1), (''pdf'', PNode l2)]))"
proof -
  have e: "excl_time_of (find_all ''p'' html_data) = Inr 0"
    using excl_time_blank[OF assms] .
  have ne: "find_all ''p'' html_data \<noteq> []" using assms(1) by simp
  show ?thesis
    unfolding get_prop_info_Inr using e ne by auto
qed

theorem excl_time_default_witness:
  "excl_time_of (find_all ''p'' (example_page (second_paragraph blank_tail))) = Inr 0
   \<and> get_prop_info example_float (example_page (second_paragraph blank_tail))
     = Inr [(''pi'', PStr ''Jane Doe''), (''pi_inst'', PStr ''STScI''),
            (''title'', PStr ''Deep Field''), (''cycle'', PInt 1),
            (''allocation'', PFloat ''25.3''), (''excl_time'', PInt 0),
            (''ptype'', PNode (NavigableString ''GO'')),
            (''apt'', PNode (link ''apt'' ''APT'')), (''pdf'', PNode (link ''pdf'' ''PDF''))]"
proof -
  have ps: "find_all ''p'' (example_page (second_paragraph blank_tail))
      = Tag ''p'' []
          [bold ''Principal Investigator:'', NavigableString '' Jane Doe'', Tag ''br'' [] [],
           NavigableString '' '', bold ''PI Institution:'', NavigableString '' STScI'']
        # Tag ''p'' [] (second_paragraph blank_tail) # []"
    by (simp add: example_page_def find_all_def bold_def link_def second_paragraph_def
          blank_tail_def period_tail_def)
  have c: "contents (Tag ''p'' [] (second_paragraph blank_tail)) = Inr (second_paragraph blank_tail)"
    by simp
  have ne: "second_paragraph blank_tail \<noteq> []"
    by (simp add: second_paragraph_def)
  have l: "last (second_paragraph blank_tail) = NavigableString [CHR '' '', CHR 0x0A]"
    by (simp add: second_paragraph_def blank_tail_def period_tail_def)
  have b: "\<forall>c\<in>set [CHR '' '', CHR 0x0A]. is_space c"
    by (simp add: is_space_def)
  from excl_time_default[OF ps c ne l b, of example_float] example_page_blank
  show ?thesis by simp
qed

text \<open>
  Claim C7 as worded fails where the last position does not exist: a second paragraph
  without children raises \<open>IndexError\<close> at the title, before the exclusion time is read, and
  nothing is returned. A second paragraph that ends with the allocation, the exclusion
  nodes missing, raises \<open>ValueError\<close>, which the handler does not catch.
\<close>

theorem excl_time_counterexample:
  "bind (index (find_all ''p'' (example_page [])) 1) contents = Inr []
   \<and> get_prop_info example_float (example_page []) = Inl IndexError
   \<and> get_prop_info example_float (example_page (second_paragraph [])) = Inl ValueError"
  by code_simp

text \<open>
  Claim C10. What \<^verbatim>\<open>get_prop_info\<close> returns is the empty mapping or a mapping with exactly
  the nine keys, in the order of their assignment, each with a value of its kind; a mapping
  with some of the keys only is never returned.
\<close>

theorem all_or_nothing:
  assumes "get_prop_info fl html_data = Inr d"
  shows "d = [] \<or>
     (\<exists>a b c n x e t l1 l2.
        d = [(''pi'', pval_of a), (''pi_inst'', pval_of b), (''title'', pval_of c),
                (''cycle'', PInt n),
             (''allocation'', PFloat x), (''excl_time'', PInt e), (''ptype'', PNode t),
             (''apt'', PNode l1), (''pdf'', PNode l2)])"
  using assms get_prop_info_Inr[of fl html_data d] by (auto split: if_splits)

theorem all_or_nothing_witness:
  "map_sum id (map fst)
     (get_prop_info example_float
        (example_page (second_paragraph (period_tail '' 12 months''))))
     = Inr [''pi'', ''pi_inst'', ''title'', ''cycle'', ''allocation'', ''excl_time'', ''ptype'',
            ''apt'', ''pdf'']"
proof -
  have h: "get_prop_info example_float
        (example_page (second_paragraph (period_tail '' 12 months'')))
     = Inr [(''pi'', PStr ''Jane Doe''), (''pi_inst'', PStr ''STScI''),
            (''title'', PStr ''Deep Field''), (''cycle'', PInt 1),
            (''allocation'', PFloat ''25.3''), (''excl_time'', PInt 12),
            (''ptype'', PNode (NavigableString ''GO'')),
            (''apt'', PNode (link ''apt'' ''APT'')), (''pdf'', PNode (link ''pdf'' ''PDF''))]"
    by code_simp
  from all_or_nothing[OF h] h show ?thesis by simp
qed

end
